theory Spec2Isabelle
  imports Main "HOL-Library.AList" "HOL-Library.Sublist"
begin

section \<open>JavaScript values\<close>

text \<open>
  The workflow tool (class ToolWorkflow, method supplyData) moves loosely typed
  JavaScript data around: the execution engine returns an arbitrary value, the
  extracted response is declared a string but may be anything. Values are JSON data
  plus \<open>undefined\<close>. An object is an association list in insertion order.
  \<open>JNumber\<close> holds the integral Numbers (in the safe integer range, where
  \<open>Number.prototype.toString\<close> prints plain decimal digits); fractions, NaN and the
  infinities are floating point and are not values of this embedding.

  What the embedding leaves out of JavaScript: functions and the properties a value
  inherits from its prototype, the special property name \<open>__proto__\<close>, and thrown
  values that are not Error objects. A string is a list of 8-bit characters.
\<close>

datatype jsval =
    JUndefined
  | JNull
  | JBoolean bool
  | JNumber int
  | JString string
  | JArray "jsval list"
  | JObject "(string \<times> jsval) list"

type_synonym IDataObject = "(string \<times> jsval) list"

text \<open>The \<open>typeof\<close> operator.\<close>

fun typeof :: "jsval \<Rightarrow> string" where
  "typeof JUndefined = ''undefined''"
| "typeof JNull = ''object''"
| "typeof (JBoolean b) = ''boolean''"
| "typeof (JNumber n) = ''number''"
| "typeof (JString s) = ''string''"
| "typeof (JArray xs) = ''object''"
| "typeof (JObject kvs) = ''object''"

text \<open>Decimal digits of a natural number, and \<open>Number.prototype.toString\<close> on integers.\<close>

definition digit :: "nat \<Rightarrow> char" where
  "digit d = ''0123456789'' ! d"

fun decimal :: "nat \<Rightarrow> string" where
  "decimal n = (if n < 10 then [digit n] else decimal (n div 10) @ [digit (n mod 10)])"

declare decimal.simps [simp del]

definition Number_toString :: "int \<Rightarrow> string" where
  "Number_toString n = (if n < 0 then CHR ''-'' # decimal (nat (- n)) else decimal (nat n))"

text \<open>The number that a string of decimal digits denotes.\<close>

definition decimal_value :: "string \<Rightarrow> nat" where
  "decimal_value s = foldl (\<lambda>a c. 10 * a + (of_char c - 48)) 0 s"

subsection \<open>Property access and lodash get\<close>

text \<open>
  Property keys are strings; a number used as a key is its decimal string. The own
  properties of an object are its entries, those of an array and of a string are
  the indices and \<open>length\<close>. Properties inherited from the prototypes (methods such
  as \<open>toString\<close>) are not modelled: a key that is not an own property reads as
  \<open>undefined\<close>.
\<close>

datatype PropertyKey = Index nat | Name string

fun toKey :: "PropertyKey \<Rightarrow> string" where
  "toKey (Index i) = decimal i"
| "toKey (Name s) = s"

fun indexed :: "nat \<Rightarrow> jsval list \<Rightarrow> (string \<times> jsval) list" where
  "indexed i [] = []"
| "indexed i (x # xs) = (decimal i, x) # indexed (Suc i) xs"

fun ownProperties :: "jsval \<Rightarrow> (string \<times> jsval) list" where
  "ownProperties (JObject kvs) = kvs"
| "ownProperties (JArray xs) = indexed 0 xs @ [(''length'', JNumber (int (length xs)))]"
| "ownProperties (JString s) =
     indexed 0 (map (\<lambda>c. JString [c]) s) @ [(''length'', JNumber (int (length s)))]"
| "ownProperties v = []"

definition getProperty :: "jsval \<Rightarrow> PropertyKey \<Rightarrow> jsval" where
  "getProperty object key =
     (case map_of (ownProperties object) (toKey key) of
        None \<Rightarrow> JUndefined
      | Some v \<Rightarrow> v)"

text \<open>
  lodash \<open>get(object, path)\<close> with no default value. Its loop (baseGet) walks the
  path while the current value is neither \<open>null\<close> nor \<open>undefined\<close>; the result is the
  value reached when the whole of a non-empty path was walked, and \<open>undefined\<close>
  otherwise. \<open>baseGet\<close> returns \<open>None\<close> when the walk stopped early.
\<close>

fun baseGet :: "jsval \<Rightarrow> PropertyKey list \<Rightarrow> jsval option" where
  "baseGet object [] = Some object"
| "baseGet object (key # path) =
     (if object = JNull \<or> object = JUndefined then None
      else baseGet (getProperty object key) path)"

definition get :: "jsval \<Rightarrow> PropertyKey list \<Rightarrow> jsval" where
  "get object path =
     (if path = [] then JUndefined
      else case baseGet object path of None \<Rightarrow> JUndefined | Some result \<Rightarrow> result)"

text \<open>\<open>String.prototype.startsWith\<close>, and \<open>replace(/^=+/, '')\<close>: drop every leading \<open>=\<close>.\<close>

definition startsWith :: "string \<Rightarrow> string \<Rightarrow> bool" where
  "startsWith s p = (take (length p) s = p)"

definition replace_leading_equals :: "string \<Rightarrow> string" where
  "replace_leading_equals s = dropWhile (\<lambda>c. c = CHR ''='') s"

section \<open>Nodes, errors and collaborators\<close>

datatype INode = INode (node_name: string)

datatype NodeConnectionType = AiTool | Main

text \<open>
  A thrown or rejected error: an Error object with its message; a NodeOperationError
  also carries the node that raised it and, when given, the item index.
\<close>

record ExecutionError =
  message :: string
  node :: "INode option"
  itemIndex :: "nat option"

text \<open>
  Modelled from the spec: the class NodeOperationError (package n8n-workflow) is not
  among the source files. Built from a message it is a structured error with that
  message; built from a caught error it carries the original message; either way it
  carries the invoking node's identity, and the item index of its options when given.
\<close>

fun NodeOperationError :: "INode \<Rightarrow> string + ExecutionError \<Rightarrow> nat option \<Rightarrow> ExecutionError" where
  "NodeOperationError n (Inl msg) idx = \<lparr>message = msg, node = Some n, itemIndex = idx\<rparr>"
| "NodeOperationError n (Inr error) idx =
     \<lparr>message = message error, node = Some n, itemIndex = idx\<rparr>"

text \<open>One configured entry of \<open>fields.values\<close> (SetField), read with raw expressions.\<close>

record SetField =
  name :: string
  type :: string
  objectValue :: string

record SetNodeOptions =
  include_option :: string

record IExecuteWorkflowInfo =
  id_info :: "string option"
  code_info :: "jsval option"

text \<open>The node parameters that \<open>getNodeParameter\<close> reads inside the tool function.\<close>

record NodeParameters =
  source :: string
  responsePropertyName :: string
  workflowId :: string
  workflowJson :: string
  fields_values :: "SetField list"

text \<open>
  Calls to the collaborators that have an effect outside the tool, in the order they
  are made: the two provenance calls (addInputData with the index it returned,
  addOutputData with an error or with data), the field-merge transform
  (\<open>manual.execute\<close> of the Set node) and the execution engine (executeWorkflow).
\<close>

datatype call =
    AddInputData NodeConnectionType jsval nat
  | AddOutputData NodeConnectionType nat "ExecutionError + jsval"
  | ManualExecute jsval nat SetNodeOptions IDataObject INode
  | ExecuteWorkflow IExecuteWorkflowInfo "jsval list"

text \<open>
  The execution context \<open>this\<close> together with the imported collaborators. None of
  them is among the source files, so each is a parameter: a collaborator that may
  throw or reject returns \<open>Inl\<close> of the error. \<open>currentNodeRunIndex\<close> is the index
  addInputData hands out, given the calls made so far.
\<close>

record IExecuteFunctions =
  getNode :: INode
  getNodeParameter :: NodeParameters
  JSON_parse :: "string \<Rightarrow> ExecutionError + jsval"
  manual_execute ::
    "jsval \<Rightarrow> nat \<Rightarrow> SetNodeOptions \<Rightarrow> IDataObject \<Rightarrow> INode \<Rightarrow> ExecutionError + jsval"
  executeWorkflow :: "IExecuteWorkflowInfo \<Rightarrow> jsval list \<Rightarrow> ExecutionError + jsval"
  currentNodeRunIndex :: "call list \<Rightarrow> nat"

definition addInputData ::
  "IExecuteFunctions \<Rightarrow> NodeConnectionType \<Rightarrow> jsval \<Rightarrow> call list \<Rightarrow> nat \<times> call list" where
  "addInputData this connectionType data calls =
     (let index = currentNodeRunIndex this calls
      in (index, calls @ [AddInputData connectionType data index]))"

definition addOutputData ::
  "NodeConnectionType \<Rightarrow> nat \<Rightarrow> ExecutionError + jsval \<Rightarrow> call list \<Rightarrow> call list" where
  "addOutputData connectionType index data calls =
     calls @ [AddOutputData connectionType index data]"

section \<open>The tool function\<close>

text \<open>The constant \<open>itemIndex\<close> of supplyData.\<close>

definition itemIndex0 :: nat where
  "itemIndex0 = 0"

text \<open>
  runFunction, first block: the workflow to run, from the parameter \<open>source\<close>. A
  workflowJson that JSON.parse refuses becomes a NodeOperationError with the parser's
  message, thrown before anything else is done.
\<close>

definition workflowInfo_of :: "IExecuteFunctions \<Rightarrow> ExecutionError + IExecuteWorkflowInfo" where
  \<open>workflowInfo_of this =
     (let params = getNodeParameter this;
          workflowInfo = \<lparr>id_info = None, code_info = None\<rparr>
      in if source params = ''database'' then
           Inr (workflowInfo\<lparr>id_info := Some (workflowId params)\<rparr>)
         else if source params = ''parameter'' then
           (case JSON_parse this (workflowJson params) of
              Inr parsed \<Rightarrow> Inr (workflowInfo\<lparr>code_info := Some parsed\<rparr>)
            | Inl error \<Rightarrow>
                Inl (NodeOperationError (getNode this)
                       (Inl (''The provided workflow is not valid JSON: "'' @ message error @ ''"''))
                       (Some itemIndex0)))
         else Inr workflowInfo)\<close>

text \<open>
  runFunction, second block: \<open>rawData\<close> starts as the record holding the query; the
  loop over \<open>fields.values\<close> stores, for each entry of type objectValue whose value
  starts with \<open>=\<close>, the value without its leading \<open>=\<close> signs under the entry's name.
\<close>

definition rawData_entry :: "SetField \<Rightarrow> IDataObject \<Rightarrow> IDataObject" where
  "rawData_entry entry rawData =
     (if type entry = ''objectValue'' \<and> startsWith (objectValue entry) ''=''
      then AList.update (name entry) (JString (replace_leading_equals (objectValue entry))) rawData
      else rawData)"

fun rawData_loop :: "SetField list \<Rightarrow> IDataObject \<Rightarrow> IDataObject" where
  "rawData_loop [] rawData = rawData"
| "rawData_loop (entry # entries) rawData = rawData_loop entries (rawData_entry entry rawData)"

definition rawData_of :: "IExecuteFunctions \<Rightarrow> string \<Rightarrow> IDataObject" where
  "rawData_of this query =
     rawData_loop (fields_values (getNodeParameter this)) [(''query'', JString query)]"

definition apostrophe :: char where
  "apostrophe = CHR 0x27"

definition query_item :: "string \<Rightarrow> jsval" where
  "query_item query = JObject [(''json'', JObject [(''query'', JString query)])]"

definition missing_property_message :: "string \<Rightarrow> string" where
  \<open>missing_property_message responseProperty =
     ''There was an error: "The workflow did not return an item with the property '' @
     [apostrophe] @ responseProperty @ [apostrophe] @ ''"''\<close>

text \<open>
  runFunction: resolve the workflow, compose the input, run the merge transform,
  run the workflow, extract the response. The result is \<open>Inl\<close> of the error thrown,
  or \<open>Inr\<close> of the value returned; the calls made are appended to the call list.
\<close>

definition runFunction ::
  "IExecuteFunctions \<Rightarrow> string \<Rightarrow> call list \<Rightarrow> (ExecutionError + jsval) \<times> call list" where
  "runFunction this query calls =
     (case workflowInfo_of this of
        Inl error \<Rightarrow> (Inl error, calls)
      | Inr workflowInfo \<Rightarrow>
          (let rawData = rawData_of this query;
               options = \<lparr>include_option = ''all''\<rparr>;
               calls1 = calls @
                 [ManualExecute (query_item query) itemIndex0 options rawData (getNode this)]
           in case manual_execute this (query_item query) itemIndex0 options rawData (getNode this) of
                Inl error \<Rightarrow> (Inl error, calls1)
              | Inr newItem \<Rightarrow>
                  (let items = [newItem];
                       calls2 = calls1 @ [ExecuteWorkflow workflowInfo items]
                   in case executeWorkflow this workflowInfo items of
                        Inl error \<Rightarrow>
                          (Inl (NodeOperationError (getNode this) (Inr error) None), calls2)
                      | Inr receivedData \<Rightarrow>
                          (let response =
                                 get receivedData
                                   [Index 0, Index 0, Name ''json'',
                                    Name (responsePropertyName (getNodeParameter this))]
                           in if response = JUndefined then
                                (Inl (NodeOperationError (getNode this)
                                        (Inl (missing_property_message
                                                (responsePropertyName (getNodeParameter this))))
                                        None),
                                 calls2)
                              else (Inr response, calls2)))))"

definition error_response :: "string \<Rightarrow> string" where
  \<open>error_response msg = ''There was an error: "'' @ msg @ ''"''\<close>

definition invalid_value_message :: "string \<Rightarrow> string" where
  \<open>invalid_value_message t =
     ''The code did not return a valid value. Instead of a string did a value of type '' @
     [apostrophe] @ t @ [apostrophe] @ '' get returned.''\<close>

text \<open>
  func, the function handed to DynamicTool: record the input, run runFunction inside
  try/catch, turn a number into its string, refuse any other value that is not a
  string, record the output (the error if there is one, the response otherwise) and
  return the response.
\<close>

definition func :: "IExecuteFunctions \<Rightarrow> string \<Rightarrow> call list \<Rightarrow> jsval \<times> call list" where
  "func this query calls =
     (let (index, calls1) =
            addInputData this AiTool (JArray [JArray [query_item query]]) calls;
          (result, calls2) = runFunction this query calls1;
          (response, executionError) =
            (case result of
               Inr r \<Rightarrow> (r, None)
             | Inl error \<Rightarrow> (JString (error_response (message error)), Some error));
          response =
            (if typeof response = ''number''
             then (case response of JNumber n \<Rightarrow> JString (Number_toString n) | r \<Rightarrow> r)
             else response);
          (response, executionError) =
            (if typeof response \<noteq> ''string'' then
               (let e = NodeOperationError (getNode this)
                          (Inl (invalid_value_message (typeof response))) None
                in (JString (error_response (message e)), Some e))
             else (response, executionError))
      in case executionError of
           Some e \<Rightarrow> (response, addOutputData AiTool index (Inl e) calls2)
         | None \<Rightarrow>
             (response,
              addOutputData AiTool index
                (Inr (JArray [JArray [JObject [(''json'', JObject [(''response'', response)])]]]))
                calls2))"

section \<open>Vocabulary of the statements\<close>

text \<open>The path runFunction hands to lodash get.\<close>

definition response_path :: "IExecuteFunctions \<Rightarrow> PropertyKey list" where
  "response_path this =
     [Index 0, Index 0, Name ''json'', Name (responsePropertyName (getNodeParameter this))]"


text \<open>The calls func and runFunction make, as they appear in the call list.\<close>

definition input_call :: "IExecuteFunctions \<Rightarrow> string \<Rightarrow> call list \<Rightarrow> call" where
  "input_call this query calls =
     AddInputData AiTool (JArray [JArray [query_item query]]) (currentNodeRunIndex this calls)"

definition merge_call :: "IExecuteFunctions \<Rightarrow> string \<Rightarrow> call" where
  "merge_call this query =
     ManualExecute (query_item query) itemIndex0 \<lparr>include_option = ''all''\<rparr>
       (rawData_of this query) (getNode this)"

definition response_item :: "jsval \<Rightarrow> jsval" where
  "response_item response =
     JArray [JArray [JObject [(''json'', JObject [(''response'', response)])]]]"

fun isAddInputData :: "call \<Rightarrow> bool" where
  "isAddInputData (AddInputData c d i) = True"
| "isAddInputData c = False"

fun isAddOutputData :: "call \<Rightarrow> bool" where
  "isAddOutputData (AddOutputData c i d) = True"
| "isAddOutputData c = False"

fun isExecuteWorkflow :: "call \<Rightarrow> bool" where
  "isExecuteWorkflow (ExecuteWorkflow info items) = True"
| "isExecuteWorkflow c = False"

definition isProvenance :: "call \<Rightarrow> bool" where
  "isProvenance c = (isAddInputData c \<or> isAddOutputData c)"

text \<open>An entry that the loop of runFunction stores: type objectValue, value starting with \<open>=\<close>.\<close>

definition raw_object_entry :: "SetField \<Rightarrow> bool" where
  "raw_object_entry entry =
     (type entry = ''objectValue'' \<and> startsWith (objectValue entry) ''='')"

subsection \<open>A concrete tool\<close>

text \<open>
  A tool configured to run workflow 7 from the database, with the response property
  and the field entries given, and an engine that answers every call with the given
  outcome. The merge transform of the example puts the raw record into the item.
\<close>

definition example_error :: "string \<Rightarrow> ExecutionError" where
  "example_error msg = \<lparr>message = msg, node = None, itemIndex = None\<rparr>"

definition example_tool ::
  "string \<Rightarrow> SetField list \<Rightarrow> ExecutionError + jsval \<Rightarrow> IExecuteFunctions" where
  "example_tool property entries outcome =
     \<lparr>getNode = INode ''Workflow Tool'',
      getNodeParameter =
        \<lparr>source = ''database'', responsePropertyName = property, workflowId = ''7'',
         workflowJson = [], fields_values = entries\<rparr>,
      JSON_parse = (\<lambda>s. Inr JNull),
      manual_execute = (\<lambda>item i options rawData n. Inr (JObject [(''json'', JObject rawData)])),
      executeWorkflow = (\<lambda>info items. outcome),
      currentNodeRunIndex = (\<lambda>calls. length (filter isAddInputData calls))\<rparr>"

text \<open>The same tool reading its workflow from a parameter that is not JSON.\<close>

definition example_inline_tool :: IExecuteFunctions where
  "example_inline_tool =
     \<lparr>getNode = INode ''Workflow Tool'',
      getNodeParameter =
        \<lparr>source = ''parameter'', responsePropertyName = ''response'', workflowId = [],
         workflowJson = ''{not valid json'', fields_values = []\<rparr>,
      JSON_parse = (\<lambda>s. Inl (example_error ''Unexpected token n in JSON at position 1'')),
      manual_execute = (\<lambda>item i options rawData n. Inr (JObject [(''json'', JObject rawData)])),
      executeWorkflow = (\<lambda>info items. Inr (response_item (JString ''blue''))),
      currentNodeRunIndex = (\<lambda>calls. length (filter isAddInputData calls))\<rparr>"

section \<open>The exits of runFunction and of func\<close>

text \<open>
  runFunction leaves in one of five ways: the workflow document does not parse, the
  merge transform throws, the engine rejects, the response property is missing, or a
  response is returned. Each lemma gives the result and the calls made on that exit.
\<close>

lemma runFunction_resolve_error:
  "workflowInfo_of this = Inl e \<Longrightarrow> runFunction this query calls = (Inl e, calls)"
  by (simp add: runFunction_def)

lemma runFunction_merge_error:
  assumes "workflowInfo_of this = Inr workflowInfo"
    and "manual_execute this (query_item query) itemIndex0 \<lparr>include_option = ''all''\<rparr>
           (rawData_of this query) (getNode this) = Inl e"
  shows "runFunction this query calls = (Inl e, calls @ [merge_call this query])"
  using assms by (simp add: runFunction_def merge_call_def)

lemma runFunction_execute_error:
  assumes "workflowInfo_of this = Inr workflowInfo"
    and "manual_execute this (query_item query) itemIndex0 \<lparr>include_option = ''all''\<rparr>
           (rawData_of this query) (getNode this) = Inr newItem"
    and "executeWorkflow this workflowInfo [newItem] = Inl e"
  shows "runFunction this query calls =
           (Inl (NodeOperationError (getNode this) (Inr e) None),
            calls @ [merge_call this query, ExecuteWorkflow workflowInfo [newItem]])"
  using assms by (simp add: runFunction_def merge_call_def)

lemma runFunction_received:
  assumes "workflowInfo_of this = Inr workflowInfo"
    and "manual_execute this (query_item query) itemIndex0 \<lparr>include_option = ''all''\<rparr>
           (rawData_of this query) (getNode this) = Inr newItem"
    and "executeWorkflow this workflowInfo [newItem] = Inr receivedData"
  shows "runFunction this query calls =
           (if get receivedData (response_path this) = JUndefined
            then Inl (NodeOperationError (getNode this)
                   (Inl (missing_property_message (responsePropertyName (getNodeParameter this))))
                   None)
            else Inr (get receivedData (response_path this)),
            calls @ [merge_call this query, ExecuteWorkflow workflowInfo [newItem]])"
  using assms by (simp add: runFunction_def merge_call_def response_path_def Let_def)

text \<open>
  func after runFunction: the catch block, the conversion of a number, the check of
  the type, and the output event, for each kind of result.
\<close>

lemma func_error:
  assumes "runFunction this query (calls @ [input_call this query calls]) = (Inl e, calls')"
  shows "func this query calls =
           (JString (error_response (message e)),
            calls' @ [AddOutputData AiTool (currentNodeRunIndex this calls) (Inl e)])"
  using assms
  by (simp add: func_def addInputData_def addOutputData_def input_call_def Let_def)

lemma func_string:
  assumes "runFunction this query (calls @ [input_call this query calls]) = (Inr (JString s), calls')"
  shows "func this query calls =
           (JString s,
            calls' @ [AddOutputData AiTool (currentNodeRunIndex this calls)
                        (Inr (response_item (JString s)))])"
  using assms
  by (simp add: func_def addInputData_def addOutputData_def input_call_def Let_def response_item_def)

lemma func_number:
  assumes "runFunction this query (calls @ [input_call this query calls]) = (Inr (JNumber n), calls')"
  shows "func this query calls =
           (JString (Number_toString n),
            calls' @ [AddOutputData AiTool (currentNodeRunIndex this calls)
                        (Inr (response_item (JString (Number_toString n))))])"
  using assms
  by (simp add: func_def addInputData_def addOutputData_def input_call_def Let_def response_item_def)

lemma typeof_string_iff: "typeof v = ''string'' \<longleftrightarrow> (\<exists>s. v = JString s)"
  by (cases v) simp_all

lemma typeof_number_iff: "typeof v = ''number'' \<longleftrightarrow> (\<exists>n. v = JNumber n)"
  by (cases v) simp_all

lemma func_invalid:
  assumes "runFunction this query (calls @ [input_call this query calls]) = (Inr v, calls')"
    and "typeof v \<noteq> ''string''" and "typeof v \<noteq> ''number''"
  shows "func this query calls =
           (JString (error_response (invalid_value_message (typeof v))),
            calls' @ [AddOutputData AiTool (currentNodeRunIndex this calls)
                        (Inl (NodeOperationError (getNode this)
                                (Inl (invalid_value_message (typeof v))) None))])"
  using assms
  by (cases v) (simp_all add: func_def addInputData_def addOutputData_def input_call_def Let_def)

text \<open>runFunction only appends calls, and none of them is a provenance call.\<close>

lemma runFunction_calls:
  "\<exists>mid. snd (runFunction this query calls) = calls @ mid \<and> filter isProvenance mid = []"
  by (auto simp: runFunction_def Let_def isProvenance_def split: sum.splits)

text \<open>Every run of func is one of these four.\<close>

lemma func_cases:
  obtains (failed) e calls' where
      "runFunction this query (calls @ [input_call this query calls]) = (Inl e, calls')"
      "func this query calls =
         (JString (error_response (message e)),
          calls' @ [AddOutputData AiTool (currentNodeRunIndex this calls) (Inl e)])"
  | (string) s calls' where
      "runFunction this query (calls @ [input_call this query calls]) = (Inr (JString s), calls')"
      "func this query calls =
         (JString s,
          calls' @ [AddOutputData AiTool (currentNodeRunIndex this calls)
                      (Inr (response_item (JString s)))])"
  | (number) n calls' where
      "runFunction this query (calls @ [input_call this query calls]) = (Inr (JNumber n), calls')"
      "func this query calls =
         (JString (Number_toString n),
          calls' @ [AddOutputData AiTool (currentNodeRunIndex this calls)
                      (Inr (response_item (JString (Number_toString n))))])"
  | (invalid) v calls' where
      "runFunction this query (calls @ [input_call this query calls]) = (Inr v, calls')"
      "typeof v \<noteq> ''string''" "typeof v \<noteq> ''number''"
      "func this query calls =
         (JString (error_response (invalid_value_message (typeof v))),
          calls' @ [AddOutputData AiTool (currentNodeRunIndex this calls)
                      (Inl (NodeOperationError (getNode this)
                              (Inl (invalid_value_message (typeof v))) None))])"
proof -
  obtain r calls' where run: "runFunction this query (calls @ [input_call this query calls]) = (r, calls')"
    by (cases "runFunction this query (calls @ [input_call this query calls])")
  show thesis
  proof (cases r)
    case (Inl e)
    with run failed func_error show thesis by blast
  next
    case (Inr v)
    show thesis
    proof (cases "typeof v = ''string''")
      case True
      then obtain s where "v = JString s" by (auto simp: typeof_string_iff)
      with run Inr string func_string show thesis by blast
    next
      case notstr: False
      show thesis
      proof (cases "typeof v = ''number''")
        case True
        then obtain n where "v = JNumber n" by (auto simp: typeof_number_iff)
        with run Inr number func_number show thesis by blast
      next
        case False
        with run Inr notstr invalid func_invalid show thesis by blast
      qed
    qed
  qed
qed

section \<open>The tool never rejects\<close>

text \<open>
  Claim C1. For every query string, func resolves to a string. In the model a thrown
  error is the \<open>Inl\<close> result of runFunction, which covers resolving the workflow,
  composing the input, executing and extracting; func turns either result into a
  value, and that value is always a \<open>JString\<close>, whatever the collaborators return or
  throw. An error thrown in runFunction does not leave func: it becomes the text
  \<open>There was an error: "<message>"\<close>.
\<close>

theorem func_resolves_to_string:
  "\<exists>s. fst (func this query calls) = JString s \<and>
       (case fst (runFunction this query (calls @ [input_call this query calls])) of
          Inl error \<Rightarrow> s = error_response (message error)
        | Inr response \<Rightarrow> True)"
  by (rule func_cases [of this query calls]) simp_all

section \<open>Provenance\<close>

text \<open>
  Claim C2. Every invocation of func appends to the call list exactly one
  addInputData call, first, and exactly one addOutputData call, last; the calls in
  between are not provenance calls, and the output call carries the index that the
  input call returned. This holds whatever path runFunction takes.
\<close>

theorem func_records_one_input_one_output:
  "\<exists>mid outcome.
     snd (func this query calls) =
       calls @ [input_call this query calls] @ mid @
         [AddOutputData AiTool (currentNodeRunIndex this calls) outcome] \<and>
     filter isProvenance mid = [] \<and>
     filter isAddInputData ([input_call this query calls] @ mid @
         [AddOutputData AiTool (currentNodeRunIndex this calls) outcome]) =
       [input_call this query calls] \<and>
     filter isAddOutputData ([input_call this query calls] @ mid @
         [AddOutputData AiTool (currentNodeRunIndex this calls) outcome]) =
       [AddOutputData AiTool (currentNodeRunIndex this calls) outcome]"
proof -
  obtain mid where mid:
    "snd (runFunction this query (calls @ [input_call this query calls])) =
       (calls @ [input_call this query calls]) @ mid"
    "filter isProvenance mid = []"
    using runFunction_calls by blast
  from mid(2) have none: "filter isAddInputData mid = []" "filter isAddOutputData mid = []"
    by (auto simp: filter_empty_conv isProvenance_def)
  obtain outcome where out:
    "snd (func this query calls) =
       snd (runFunction this query (calls @ [input_call this query calls])) @
         [AddOutputData AiTool (currentNodeRunIndex this calls) outcome]"
    by (rule func_cases [of this query calls]) simp_all
  show ?thesis
    using mid out none by (intro exI [of _ mid] exI [of _ outcome]) (simp add: input_call_def)
qed

section \<open>The concrete tool, evaluated\<close>

lemma example_tool_resolved:
  "workflowInfo_of (example_tool property entries outcome) = Inr \<lparr>id_info = Some ''7'', code_info = None\<rparr>"
  by (simp add: workflowInfo_of_def example_tool_def)

lemma example_tool_merged:
  "manual_execute (example_tool property entries outcome) (query_item query) itemIndex0
     \<lparr>include_option = ''all''\<rparr> (rawData_of (example_tool property entries outcome) query)
     (getNode (example_tool property entries outcome)) =
   Inr (JObject [(''json'', JObject (rawData_of (example_tool property entries outcome) query))])"
  by (simp add: example_tool_def)

lemma example_tool_executed:
  "executeWorkflow (example_tool property entries outcome) info items = outcome"
  by (simp add: example_tool_def)

lemma example_tool_path:
  "response_path (example_tool property entries outcome) =
     [Index 0, Index 0, Name ''json'', Name property]"
  by (simp add: response_path_def example_tool_def)

lemma decimal_0: "decimal 0 = ''0''"
  by (simp add: decimal.simps digit_def)

lemma getProperty_array_0: "getProperty (JArray (x # xs)) (Index 0) = x"
  by (simp add: getProperty_def decimal_0)

lemma getProperty_object:
  "getProperty (JObject kvs) (Name k) = (case map_of kvs k of None \<Rightarrow> JUndefined | Some v \<Rightarrow> v)"
  by (simp add: getProperty_def)

lemma get_response_item:
  "get (JArray [JArray [JObject [(''json'', JObject kvs)]]]) [Index 0, Index 0, Name ''json'', Name p] =
     (case map_of kvs p of None \<Rightarrow> JUndefined | Some v \<Rightarrow> v)"
  by (simp add: get_def getProperty_array_0 getProperty_object)


section \<open>Extracting the response\<close>




text \<open>
  What func returns, and the calls it makes, when the lookup of the response property
  yields \<open>undefined\<close>.
\<close>

lemma func_missing_property:
  assumes "workflowInfo_of this = Inr workflowInfo"
    and "manual_execute this (query_item query) itemIndex0 \<lparr>include_option = ''all''\<rparr>
           (rawData_of this query) (getNode this) = Inr newItem"
    and "executeWorkflow this workflowInfo [newItem] = Inr receivedData"
    and "get receivedData (response_path this) = JUndefined"
  shows "func this query calls =
           (JString (error_response
              (missing_property_message (responsePropertyName (getNodeParameter this)))),
            calls @ [input_call this query calls, merge_call this query,
                     ExecuteWorkflow workflowInfo [newItem],
                     AddOutputData AiTool (currentNodeRunIndex this calls)
                       (Inl (NodeOperationError (getNode this)
                          (Inl (missing_property_message
                                  (responsePropertyName (getNodeParameter this))))
                          None))])"
proof -
  have "runFunction this query (calls @ [input_call this query calls]) =
          (Inl (NodeOperationError (getNode this)
             (Inl (missing_property_message (responsePropertyName (getNodeParameter this)))) None),
           (calls @ [input_call this query calls]) @
             [merge_call this query, ExecuteWorkflow workflowInfo [newItem]])"
    using assms by (simp add: runFunction_received)
  from func_error [OF this] show ?thesis by simp
qed



text \<open>
  Claim C9. When the steps up to the extraction succeed and the response property
  is absent, the message thrown by runFunction already starts with the template
  \<open>There was an error: "\<close>, and the catch block of func wraps that message in the
  template again: the resolved string is
  \<open>There was an error: "There was an error: "The workflow did not return an item with
  the property '<name>'""\<close>.
\<close>

theorem missing_property_repeats_prefix:
  assumes "workflowInfo_of this = Inr workflowInfo"
    and "manual_execute this (query_item query) itemIndex0 \<lparr>include_option = ''all''\<rparr>
           (rawData_of this query) (getNode this) = Inr newItem"
    and "executeWorkflow this workflowInfo [newItem] = Inr receivedData"
    and "get receivedData (response_path this) = JUndefined"
  shows \<open>\<exists>e. fst (runFunction this query calls) = Inl e \<and>
          prefix ''There was an error: "'' (message e) \<and>
          fst (func this query calls) = JString (''There was an error: "'' @ message e @ ''"'') \<and>
          fst (func this query calls) =
            JString (''There was an error: "There was an error: "The workflow did not return an item with the property '' @
                     [apostrophe] @ responsePropertyName (getNodeParameter this) @ [apostrophe] @ ''""'')\<close>
proof -
  let ?p = "responsePropertyName (getNodeParameter this)"
  let ?e = "NodeOperationError (getNode this) (Inl (missing_property_message ?p)) None"
  have run: "fst (runFunction this query calls) = Inl ?e"
    using assms by (simp add: runFunction_received)
  have pre: \<open>prefix ''There was an error: "'' (message ?e)\<close>
    by (simp add: missing_property_message_def)
  have res: "fst (func this query calls) = JString (error_response (message ?e))"
    using func_missing_property [OF assms] by simp
  show ?thesis
    using run pre res
    by (intro exI [of _ ?e]) (simp add: error_response_def missing_property_message_def)
qed

theorem missing_property_repeats_prefix_witness:
  \<open>get (response_item (JString ''blue''))
     (response_path (example_tool ''result'' [] (Inr (response_item (JString ''blue''))))) =
     JUndefined \<and>
   fst (func (example_tool ''result'' [] (Inr (response_item (JString ''blue'')))) ''hello'' []) =
     JString (''There was an error: "There was an error: "The workflow did not return an item with the property '' @
              [apostrophe] @ ''result'' @ [apostrophe] @ ''""'')\<close>
proof -
  let ?tool = "example_tool ''result'' [] (Inr (response_item (JString ''blue'')))"
  have absent: "get (response_item (JString ''blue'')) (response_path ?tool) = JUndefined"
    by (simp add: example_tool_path response_item_def get_response_item)
  have property: "responsePropertyName (getNodeParameter ?tool) = ''result''"
    by (simp add: example_tool_def)
  from missing_property_repeats_prefix
         [OF example_tool_resolved example_tool_merged example_tool_executed absent,
          of "''hello''" "[]"]
  show ?thesis using absent by (auto simp: property)
qed

section \<open>Failures before the extraction\<close>

text \<open>
  Claim C4. When executeWorkflow rejects, runFunction throws a NodeOperationError
  that carries the message of the rejection and the node of the tool; the engine
  is called once and not again (the calls of the invocation are the input event,
  the merge transform, one executeWorkflow and the output event with the error),
  and func resolves to \<open>There was an error: "<message>"\<close>. For the message
  \<open>boom\<close> the resolved string is \<open>There was an error: "boom"\<close>.
\<close>

theorem execute_rejection_is_wrapped:
  assumes "workflowInfo_of this = Inr workflowInfo"
    and "manual_execute this (query_item query) itemIndex0 \<lparr>include_option = ''all''\<rparr>
           (rawData_of this query) (getNode this) = Inr newItem"
    and "executeWorkflow this workflowInfo [newItem] = Inl error"
  shows \<open>\<exists>e. message e = message error \<and> node e = Some (getNode this) \<and>
          fst (runFunction this query calls) = Inl e \<and>
          func this query calls =
            (JString (''There was an error: "'' @ message error @ ''"''),
             calls @ [input_call this query calls, merge_call this query,
                      ExecuteWorkflow workflowInfo [newItem],
                      AddOutputData AiTool (currentNodeRunIndex this calls) (Inl e)])\<close>
proof -
  let ?e = "NodeOperationError (getNode this) (Inr error) None"
  have run: "runFunction this query cs =
               (Inl ?e, cs @ [merge_call this query, ExecuteWorkflow workflowInfo [newItem]])" for cs
    using assms by (rule runFunction_execute_error)
  have "func this query calls =
          (JString (error_response (message ?e)),
           ((calls @ [input_call this query calls]) @
              [merge_call this query, ExecuteWorkflow workflowInfo [newItem]]) @
             [AddOutputData AiTool (currentNodeRunIndex this calls) (Inl ?e)])"
    by (rule func_error) (rule run)
  then show ?thesis
    using run [of calls] by (intro exI [of _ ?e]) (simp add: error_response_def)
qed

theorem execute_rejection_is_wrapped_witness:
  \<open>executeWorkflow (example_tool ''response'' [] (Inl (example_error ''boom'')))
     \<lparr>id_info = Some ''7'', code_info = None\<rparr>
     [JObject [(''json'', JObject [(''query'', JString ''hello'')])]] =
     Inl (example_error ''boom'') \<and>
   fst (func (example_tool ''response'' [] (Inl (example_error ''boom''))) ''hello'' []) =
     JString ''There was an error: "boom"'' \<and>
   filter isExecuteWorkflow
     (snd (func (example_tool ''response'' [] (Inl (example_error ''boom''))) ''hello'' [])) =
     [ExecuteWorkflow \<lparr>id_info = Some ''7'', code_info = None\<rparr>
        [JObject [(''json'', JObject [(''query'', JString ''hello'')])]]]\<close>
proof -
  let ?tool = "example_tool ''response'' [] (Inl (example_error ''boom''))"
  have raw: "rawData_of ?tool ''hello'' = [(''query'', JString ''hello'')]"
    by (simp add: rawData_of_def example_tool_def)
  have msg: "message (example_error ''boom'') = ''boom''"
    by (simp add: example_error_def)
  have rejected: "executeWorkflow ?tool \<lparr>id_info = Some ''7'', code_info = None\<rparr>
      [JObject [(''json'', JObject (rawData_of ?tool ''hello''))]] = Inl (example_error ''boom'')"
    by (rule example_tool_executed)
  from execute_rejection_is_wrapped
         [OF example_tool_resolved example_tool_merged rejected, of "[]"]
  obtain e where
    \<open>func ?tool ''hello'' [] =
       (JString (''There was an error: "'' @ message (example_error ''boom'') @ ''"''),
        [] @ [input_call ?tool ''hello'' [], merge_call ?tool ''hello'',
              ExecuteWorkflow \<lparr>id_info = Some ''7'', code_info = None\<rparr>
                [JObject [(''json'', JObject (rawData_of ?tool ''hello''))]],
              AddOutputData AiTool (currentNodeRunIndex ?tool []) (Inl e)])\<close>
    by blast
  then show ?thesis
    using rejected by (simp add: raw msg input_call_def merge_call_def)
qed

text \<open>
  Claim C5. When the source is \<open>parameter\<close> and JSON.parse refuses workflowJson,
  resolving the workflow throws a NodeOperationError whose message carries the
  parser's message; runFunction stops there without a call to the merge transform
  or to the engine, and func still resolves, to a string built from that message.
\<close>

theorem invalid_workflow_json:
  assumes "source (getNodeParameter this) = ''parameter''"
    and "JSON_parse this (workflowJson (getNodeParameter this)) = Inl error"
  shows \<open>\<exists>e. message e = ''The provided workflow is not valid JSON: "'' @ message error @ ''"'' \<and>
          node e = Some (getNode this) \<and> itemIndex e = Some 0 \<and>
          workflowInfo_of this = Inl e \<and>
          runFunction this query calls = (Inl e, calls) \<and>
          func this query calls =
            (JString (''There was an error: "The provided workflow is not valid JSON: "'' @
                      message error @ ''""''),
             calls @ [input_call this query calls,
                      AddOutputData AiTool (currentNodeRunIndex this calls) (Inl e)])\<close>
proof -
  let ?e = \<open>NodeOperationError (getNode this)
              (Inl (''The provided workflow is not valid JSON: "'' @ message error @ ''"''))
              (Some itemIndex0)\<close>
  have resolve: "workflowInfo_of this = Inl ?e"
    using assms by (simp add: workflowInfo_of_def)
  then have run: "runFunction this query cs = (Inl ?e, cs)" for cs
    by (rule runFunction_resolve_error)
  have "func this query calls =
          (JString (error_response (message ?e)),
           (calls @ [input_call this query calls]) @
             [AddOutputData AiTool (currentNodeRunIndex this calls) (Inl ?e)])"
    by (rule func_error) (rule run)
  then show ?thesis
    using resolve run [of calls]
    by (intro exI [of _ ?e]) (simp add: error_response_def itemIndex0_def)
qed

theorem invalid_workflow_json_witness:
  \<open>source (getNodeParameter example_inline_tool) = ''parameter'' \<and>
   workflowJson (getNodeParameter example_inline_tool) = ''{not valid json'' \<and>
   JSON_parse example_inline_tool ''{not valid json'' =
     Inl (example_error ''Unexpected token n in JSON at position 1'') \<and>
   fst (func example_inline_tool ''hello'' []) =
     JString ''There was an error: "The provided workflow is not valid JSON: "Unexpected token n in JSON at position 1""'' \<and>
   filter isExecuteWorkflow (snd (func example_inline_tool ''hello'' [])) = []\<close>
proof -
  have src: "source (getNodeParameter example_inline_tool) = ''parameter''"
    by (simp add: example_inline_tool_def)
  have doc: "workflowJson (getNodeParameter example_inline_tool) = ''{not valid json''"
    by (simp add: example_inline_tool_def)
  have parse: "JSON_parse example_inline_tool (workflowJson (getNodeParameter example_inline_tool)) =
      Inl (example_error ''Unexpected token n in JSON at position 1'')"
    by (simp add: example_inline_tool_def)
  from invalid_workflow_json [OF src parse, of "''hello''" "[]"]
  show ?thesis
    using src doc parse by (auto simp: example_error_def input_call_def)
qed

section \<open>The type of the response\<close>

text \<open>
  \<open>decimal\<close> prints decimal digits only, and the digits denote the number printed: the
  string that \<open>Number_toString\<close> gives is the decimal form of the number.
\<close>

lemma digit_value: "d < 10 \<Longrightarrow> of_char (digit d) - 48 = (d::nat)"
proof -
  assume "d < 10"
  then have "d \<in> {0, 1, 2, 3, 4, 5, 6, 7, 8, 9}" by auto
  then show ?thesis by (auto simp: digit_def)
qed

lemma decimal_value_decimal: "decimal_value (decimal n) = n"
proof (induction n rule: decimal.induct)
  case (1 n)
  show ?case
  proof (cases "n < 10")
    case True
    then show ?thesis
      by (subst decimal.simps) (simp add: decimal_value_def digit_value)
  next
    case False
    then have "decimal_value (decimal (n div 10)) = n div 10"
      using 1 by simp
    moreover have "n mod 10 < 10" by simp
    ultimately show ?thesis
      using False
      by (subst decimal.simps) (simp add: decimal_value_def digit_value)
  qed
qed

lemma decimal_digits: "set (decimal n) \<subseteq> set ''0123456789''"
proof (induction n rule: decimal.induct)
  case (1 n)
  have d: "digit k \<in> set ''0123456789''" if "k < 10" for k
  proof -
    from that have "k \<in> {0, 1, 2, 3, 4, 5, 6, 7, 8, 9}" by auto
    then show ?thesis by (auto simp: digit_def)
  qed
  show ?case
  proof (cases "n < 10")
    case True
    then show ?thesis by (subst decimal.simps) (use d in simp)
  next
    case False
    have "n mod 10 < 10" by simp
    with False 1 d [of "n mod 10"] show ?thesis
      by (subst decimal.simps) simp
  qed
qed



text \<open>
  Claim C7. When the extracted response is neither a string nor a number, func
  records a NodeOperationError whose message names the type that \<open>typeof\<close> gives for
  the value, and resolves to a string that starts with \<open>There was an error:\<close> and
  contains that type name.
\<close>

theorem invalid_response_type:
  assumes "workflowInfo_of this = Inr workflowInfo"
    and "manual_execute this (query_item query) itemIndex0 \<lparr>include_option = ''all''\<rparr>
           (rawData_of this query) (getNode this) = Inr newItem"
    and "executeWorkflow this workflowInfo [newItem] = Inr receivedData"
    and "get receivedData (response_path this) = v"
    and "v \<noteq> JUndefined" and "typeof v \<noteq> ''string''" and "typeof v \<noteq> ''number''"
  shows \<open>\<exists>e s. message e =
            ''The code did not return a valid value. Instead of a string did a value of type '' @
            [apostrophe] @ typeof v @ [apostrophe] @ '' get returned.'' \<and>
          node e = Some (getNode this) \<and>
          s = ''There was an error: "'' @ message e @ ''"'' \<and>
          prefix ''There was an error:'' s \<and> sublist (typeof v) s \<and>
          func this query calls =
            (JString s,
             calls @ [input_call this query calls, merge_call this query,
                      ExecuteWorkflow workflowInfo [newItem],
                      AddOutputData AiTool (currentNodeRunIndex this calls) (Inl e)])\<close>
proof -
  let ?e = "NodeOperationError (getNode this) (Inl (invalid_value_message (typeof v))) None"
  let ?s = "error_response (message ?e)"
  have "runFunction this query (calls @ [input_call this query calls]) =
          (Inr v,
           (calls @ [input_call this query calls]) @
             [merge_call this query, ExecuteWorkflow workflowInfo [newItem]])"
    using assms(1-5) by (simp add: runFunction_received)
  from func_invalid [OF this assms(6,7)]
  have result: "func this query calls =
      (JString ?s,
       calls @ [input_call this query calls, merge_call this query,
                ExecuteWorkflow workflowInfo [newItem],
                AddOutputData AiTool (currentNodeRunIndex this calls) (Inl ?e)])"
    by simp
  have \<open>?s = (''There was an error: "The code did not return a valid value. Instead of a string did a value of type '' @ [apostrophe]) @
             typeof v @ ([apostrophe] @ '' get returned."'')\<close>
    by (simp add: error_response_def invalid_value_message_def)
  then have inside: "sublist (typeof v) ?s"
    by (metis sublist_appendI)
  have start: "prefix ''There was an error:'' ?s"
    by (simp add: error_response_def)
  show ?thesis
    using result inside start
    by (intro exI [of _ ?e] exI [of _ ?s])
       (simp add: error_response_def invalid_value_message_def)
qed

theorem invalid_response_type_witness:
  \<open>get (response_item (JObject [(''nested'', JBoolean True)]))
     (response_path (example_tool ''response'' []
        (Inr (response_item (JObject [(''nested'', JBoolean True)]))))) =
     JObject [(''nested'', JBoolean True)] \<and>
   typeof (JObject [(''nested'', JBoolean True)]) = ''object'' \<and>
   fst (func (example_tool ''response'' []
          (Inr (response_item (JObject [(''nested'', JBoolean True)])))) ''hello'' []) =
     JString (''There was an error: "The code did not return a valid value. Instead of a string did a value of type '' @
              [apostrophe] @ ''object'' @ [apostrophe] @ '' get returned."'')\<close>
proof -
  let ?v = "JObject [(''nested'', JBoolean True)]"
  let ?tool = "example_tool ''response'' [] (Inr (response_item ?v))"
  have val: "get (response_item ?v) (response_path ?tool) = ?v"
    by (simp add: example_tool_path response_item_def get_response_item)
  have "?v \<noteq> JUndefined" "typeof ?v \<noteq> ''string''" "typeof ?v \<noteq> ''number''"
    by simp_all
  from invalid_response_type
         [OF example_tool_resolved example_tool_merged example_tool_executed val this,
          of "''hello''" "[]"]
  show ?thesis
    using val by auto
qed

section \<open>Composing the raw record\<close>

lemma rawData_loop_append:
  "rawData_loop (xs @ ys) rawData = rawData_loop ys (rawData_loop xs rawData)"
  by (induction xs arbitrary: rawData) simp_all

lemma rawData_entry_stored:
  "raw_object_entry entry \<Longrightarrow>
     map_of (rawData_entry entry rawData) (name entry) =
       Some (JString (replace_leading_equals (objectValue entry)))"
  by (simp add: rawData_entry_def raw_object_entry_def update_conv')

lemma rawData_entry_other:
  "\<not> (raw_object_entry entry \<and> name entry = k) \<Longrightarrow>
     map_of (rawData_entry entry rawData) k = map_of rawData k"
  by (auto simp: rawData_entry_def raw_object_entry_def update_conv')

lemma rawData_loop_other:
  "\<forall>e \<in> set entries. raw_object_entry e \<longrightarrow> name e \<noteq> k \<Longrightarrow>
     map_of (rawData_loop entries rawData) k = map_of rawData k"
  by (induction entries arbitrary: rawData) (auto simp: rawData_entry_other)

lemma rawData_loop_last:
  assumes "raw_object_entry entry"
    and "\<forall>e \<in> set after. raw_object_entry e \<longrightarrow> name e \<noteq> name entry"
  shows "map_of (rawData_loop (before @ entry # after) rawData) (name entry) =
           Some (JString (replace_leading_equals (objectValue entry)))"
proof -
  have "rawData_loop (before @ entry # after) rawData =
          rawData_loop after (rawData_entry entry (rawData_loop before rawData))"
    by (simp add: rawData_loop_append)
  with assms show ?thesis
    by (simp add: rawData_loop_other rawData_entry_stored)
qed







text \<open>
  Claim C10. When \<open>fields.values\<close> has an entry named \<open>query\<close> of type objectValue
  whose value starts with \<open>=\<close>, the raw record handed to the merge transform maps
  \<open>query\<close> to the stripped value of such an entry (the last one, when there are
  several), and so not to the query the agent passed whenever the two differ. The
  first call runFunction makes, once the workflow is resolved, is the merge
  transform with that record.
\<close>

theorem query_override_replaces_query:
  assumes "entry \<in> set (fields_values (getNodeParameter this))"
    and "name entry = ''query''"
    and "type entry = ''objectValue''"
    and "startsWith (objectValue entry) ''=''"
    and "workflowInfo_of this = Inr workflowInfo"
  shows "\<exists>before last after.
           fields_values (getNodeParameter this) = before @ last # after \<and>
           name last = ''query'' \<and> raw_object_entry last \<and>
           (\<forall>e \<in> set after. \<not> (name e = ''query'' \<and> raw_object_entry e)) \<and>
           map_of (rawData_of this query) ''query'' =
             Some (JString (replace_leading_equals (objectValue last))) \<and>
           (replace_leading_equals (objectValue last) \<noteq> query \<longrightarrow>
              map_of (rawData_of this query) ''query'' \<noteq> Some (JString query)) \<and>
           (\<exists>rest. snd (runFunction this query calls) =
              calls @
              ManualExecute (query_item query) itemIndex0 \<lparr>include_option = ''all''\<rparr>
                (rawData_of this query) (getNode this) # rest)"
proof -
  have "\<exists>e \<in> set (fields_values (getNodeParameter this)).
          name e = ''query'' \<and> raw_object_entry e"
    using assms(1-4) by (auto simp: raw_object_entry_def)
  then obtain before last after where split:
    "fields_values (getNodeParameter this) = before @ last # after"
    "name last = ''query'' \<and> raw_object_entry last"
    "\<forall>e \<in> set after. \<not> (name e = ''query'' \<and> raw_object_entry e)"
    by (rule split_list_last_propE)
  have "map_of (rawData_loop (before @ last # after) [(''query'', JString query)]) (name last) =
      Some (JString (replace_leading_equals (objectValue last)))"
    using split(2,3) by (intro rawData_loop_last) auto
  then have stored: "map_of (rawData_of this query) ''query'' =
      Some (JString (replace_leading_equals (objectValue last)))"
    using split(1,2) by (simp add: rawData_of_def)
  have merge: "\<exists>rest. snd (runFunction this query calls) =
      calls @
      ManualExecute (query_item query) itemIndex0 \<lparr>include_option = ''all''\<rparr>
        (rawData_of this query) (getNode this) # rest"
    using assms(5) by (simp add: runFunction_def Let_def split: sum.splits)
  show ?thesis
    using split stored merge by (intro exI [of _ before] exI [of _ last] exI [of _ after]) simp
qed

theorem query_override_replaces_query_witness:
  "map_of (rawData_of
      (example_tool ''response''
         [\<lparr>name = ''query'', type = ''objectValue'', objectValue = ''=configured''\<rparr>]
         (Inr JNull)) ''asked by the agent'') ''query'' = Some (JString ''configured'') \<and>
   snd (runFunction
      (example_tool ''response''
         [\<lparr>name = ''query'', type = ''objectValue'', objectValue = ''=configured''\<rparr>]
         (Inr JNull)) ''asked by the agent'' []) =
     [ManualExecute (query_item ''asked by the agent'') 0 \<lparr>include_option = ''all''\<rparr>
        [(''query'', JString ''configured'')] (INode ''Workflow Tool''),
      ExecuteWorkflow \<lparr>id_info = Some ''7'', code_info = None\<rparr>
        [JObject [(''json'', JObject [(''query'', JString ''configured'')])]]]"
proof -
  let ?entry = "\<lparr>name = ''query'', type = ''objectValue'', objectValue = ''=configured''\<rparr>"
  let ?tool = "example_tool ''response'' [?entry] (Inr JNull)"
  have fields: "fields_values (getNodeParameter ?tool) = [?entry]"
    by (simp add: example_tool_def)
  have member: "?entry \<in> set (fields_values (getNodeParameter ?tool))"
    by (simp add: fields)
  have marker: "startsWith (objectValue ?entry) ''=''"
    by (simp add: startsWith_def)
  have stripped: "replace_leading_equals ''=configured'' = ''configured''"
    by (simp add: replace_leading_equals_def)
  have named: "name ?entry = ''query''" and kind: "type ?entry = ''objectValue''"
    by simp_all
  from query_override_replaces_query
         [OF member named kind marker example_tool_resolved, of "''asked by the agent''" "[]"]
  obtain before last after where
    split: "fields_values (getNodeParameter ?tool) = before @ last # after" and
    found: "map_of (rawData_of ?tool ''asked by the agent'') ''query'' =
       Some (JString (replace_leading_equals (objectValue last)))"
    by blast
  from split have "last = ?entry"
    unfolding fields by (cases before) auto
  with found have stored: "map_of (rawData_of ?tool ''asked by the agent'') ''query'' =
      Some (JString ''configured'')"
    by (simp add: stripped)
  have raw: "rawData_of ?tool ''asked by the agent'' = [(''query'', JString ''configured'')]"
    by (simp add: rawData_of_def example_tool_def rawData_entry_def startsWith_def
          replace_leading_equals_def)
  have "snd (runFunction ?tool ''asked by the agent'' []) =
      [merge_call ?tool ''asked by the agent'',
       ExecuteWorkflow \<lparr>id_info = Some ''7'', code_info = None\<rparr>
         [JObject [(''json'', JObject (rawData_of ?tool ''asked by the agent''))]]]"
    by (cases "get JNull (response_path ?tool) = JUndefined")
       (simp_all add: runFunction_received
          [OF example_tool_resolved example_tool_merged example_tool_executed])
  moreover have "getNode ?tool = INode ''Workflow Tool''"
    by (simp add: example_tool_def)
  ultimately show ?thesis
    using stored by (simp add: raw merge_call_def itemIndex0_def)
qed

end
